theory Spec2Isabelle
  imports Complex_Main
begin

section \<open>WBCD phase 1: loading and preprocessing (wbcd_phase1.py)\<close>

text \<open>
  The program locates a data member in a ZIP archive, reads it with pandas, normalises
  the column labels, encodes the label column \<open>diagnosis\<close>, drops the identifier
  column and coerces the feature columns to numbers.  The development follows the
  source function by function.  The pandas operations the source calls are modelled
  on the values they compute for the data that \<open>read_csv\<close> produces: columns of
  integers, of floats and of Python objects (text and missing markers).
\<close>

subsection \<open>Strings\<close>

text \<open>
  Member names and column labels are ASCII strings.  \<open>str.lower\<close> maps \<open>A\<close>..\<open>Z\<close>
  to \<open>a\<close>..\<open>z\<close>; \<open>str.endswith\<close> is a suffix test; \<open>str.strip\<close> removes the
  leading and trailing white space (for ASCII: the codes 9 to 13 and 28 to 32);
  \<open>str.replace(" ", "_")\<close> rewrites every blank.
\<close>

definition is_upper :: "char \<Rightarrow> bool" where
  "is_upper c = (let n = (of_char c :: nat) in 65 \<le> n \<and> n \<le> 90)"

text \<open>An upper-case letter has bit 5 clear; setting it adds 32 to the code.\<close>

definition lower_char :: "char \<Rightarrow> char" where
  "lower_char c =
     (if is_upper c
      then (case c of Char b0 b1 b2 b3 b4 b5 b6 b7 \<Rightarrow> Char b0 b1 b2 b3 b4 True b6 b7)
      else c)"

definition lower :: "string \<Rightarrow> string" where
  "lower s = map lower_char s"

definition endswith :: "string \<Rightarrow> string \<Rightarrow> bool" where
  "endswith s suf = (take (length suf) (rev s) = rev suf)"

definition is_space :: "char \<Rightarrow> bool" where
  "is_space c = (let n = (of_char c :: nat) in (9 \<le> n \<and> n \<le> 13) \<or> (28 \<le> n \<and> n \<le> 32))"

definition strip :: "string \<Rightarrow> string" where
  "strip s = rev (dropWhile is_space (rev (dropWhile is_space s)))"

definition replace_blank :: "string \<Rightarrow> string" where
  "replace_blank s = map (\<lambda>c. if c = CHR '' '' then CHR ''_'' else c) s"

subsection \<open>Errors\<close>

text \<open>
  Every exception the source raises, or lets a pandas call raise, is a value.
  \<open>IntCastingNaNError\<close> is the \<open>ValueError\<close> of \<open>astype(int)\<close> on a column that
  holds a missing or infinite value.
\<close>

datatype error =
    FileNotFoundError
  | ValueError
  | KeyError
  | IndexError
  | IntCastingNaNError
  | TypeError

subsection \<open>The archive locator\<close>

text \<open>
  \<open>find_data_member\<close> receives the archive's name list.  It discards the directory
  entries (names ending in a slash) and then runs three loops over the remaining
  names, each returning at its first hit.
\<close>

fun first_match :: "(string \<Rightarrow> bool) \<Rightarrow> string list \<Rightarrow> string option" where
  "first_match p [] = None"
| "first_match p (nm # rest) = (if p nm then Some nm else first_match p rest)"

definition is_wdbc :: "string \<Rightarrow> bool" where
  "is_wdbc nm = endswith (lower nm) ''wdbc.data''"

definition is_csv :: "string \<Rightarrow> bool" where
  "is_csv nm = endswith (lower nm) ''.csv''"

definition is_data :: "string \<Rightarrow> bool" where
  "is_data nm = endswith (lower nm) ''.data''"

definition member_files :: "string list \<Rightarrow> string list" where
  "member_files names = filter (\<lambda>n. \<not> endswith n ''/'') names"

definition find_data_member :: "string list \<Rightarrow> error + (string \<times> bool)" where
  "find_data_member names =
     (let files = member_files names in
      case first_match is_wdbc files of
        Some nm \<Rightarrow> Inr (nm, False)
      | None \<Rightarrow>
          (case first_match is_csv files of
             Some nm \<Rightarrow> Inr (nm, True)
           | None \<Rightarrow>
               (case first_match is_data files of
                  Some nm \<Rightarrow> Inr (nm, False)
                | None \<Rightarrow> Inl FileNotFoundError)))"

subsection \<open>Tables\<close>

text \<open>
  A cell is a number, text, or one of the two missing markers: the float \<open>NaN\<close> and
  \<open>pd.NA\<close>.  A number is finite or one of the two infinities; a finite number is
  kept by its exact value, whether the column stores it as an integer or as a float.
  A series is a column: its dtype and its cells.  A table is a \<open>DataFrame\<close>: the
  ordered list of its labelled columns.  The operations are modelled for tables whose
  labels are pairwise distinct, as the specification has them.
\<close>

datatype number = Fin rat | PosInf | NegInf

datatype cell = Num number | NaN | NA | Str string

datatype np_dtype = Int64 | Float64 | Object

record series =
  dtype :: np_dtype
  vals :: "cell list"

type_synonym table = "(string \<times> series) list"

definition columns :: "table \<Rightarrow> string list" where
  "columns df = map fst df"

text \<open>\<open>len(df)\<close>: the number of rows, which is the length of every column.\<close>

definition len_df :: "table \<Rightarrow> nat" where
  "len_df df = (case df of [] \<Rightarrow> 0 | (_, s) # _ \<Rightarrow> length (vals s))"

text \<open>\<open>df[c]\<close> raises \<open>KeyError\<close> for an unknown label.\<close>

definition getitem :: "table \<Rightarrow> string \<Rightarrow> error + series" where
  "getitem df c = (case map_of df c of None \<Rightarrow> Inl KeyError | Some s \<Rightarrow> Inr s)"

text \<open>\<open>df[c] = s\<close> replaces the column in its place, or appends a new column.\<close>

definition setitem :: "string \<Rightarrow> series \<Rightarrow> table \<Rightarrow> table" where
  "setitem c s df =
     (if c \<in> set (columns df)
      then map (\<lambda>(n, x). if n = c then (n, s) else (n, x)) df
      else df @ [(c, s)])"

text \<open>\<open>df.drop(columns=labels)\<close>, for labels that are present.\<close>

definition drop_columns :: "string list \<Rightarrow> table \<Rightarrow> table" where
  "drop_columns labels df = filter (\<lambda>(n, _). n \<notin> set labels) df"

text \<open>\<open>df.rename(columns={old: new})\<close>.\<close>

definition rename_column :: "string \<Rightarrow> string \<Rightarrow> table \<Rightarrow> table" where
  "rename_column old new df = map (\<lambda>(n, s). (if n = old then new else n, s)) df"

subsection \<open>The pandas operations on a series\<close>

fun isna :: "cell \<Rightarrow> bool" where
  "isna NaN = True"
| "isna NA = True"
| "isna (Num _) = False"
| "isna (Str _) = False"

definition isna_any :: "series \<Rightarrow> bool" where
  "isna_any s = list_ex isna (vals s)"

fun is_numeric_dtype :: "np_dtype \<Rightarrow> bool" where
  "is_numeric_dtype Int64 = True"
| "is_numeric_dtype Float64 = True"
| "is_numeric_dtype Object = False"

text \<open>\<open>Series.nunique()\<close> counts the distinct values that are not missing.\<close>

definition nunique :: "series \<Rightarrow> nat" where
  "nunique s = length (remdups (filter (\<lambda>c. \<not> isna c) (vals s)))"

text \<open>
  \<open>Series.astype(int)\<close>.  A finite number is truncated towards zero (numbers within
  the 64-bit range are meant); a missing or infinite float raises
  \<open>IntCastingNaNError\<close>; \<open>int(pd.NA)\<close> raises \<open>TypeError\<close>.  Text is converted
  by \<open>int(s)\<close>, which is not modelled beyond its \<open>ValueError\<close>: the program casts
  only numeric columns and freshly mapped ones, which hold no text.
\<close>

definition trunc_rat :: "rat \<Rightarrow> int" where
  "trunc_rat r = (if 0 \<le> r then \<lfloor>r\<rfloor> else \<lceil>r\<rceil>)"

fun astype_int_cells :: "cell list \<Rightarrow> error + cell list" where
  "astype_int_cells [] = Inr []"
| "astype_int_cells (Num (Fin r) # cs) =
     (case astype_int_cells cs of
        Inl e \<Rightarrow> Inl e
      | Inr ds \<Rightarrow> Inr (Num (Fin (of_int (trunc_rat r))) # ds))"
| "astype_int_cells (Num PosInf # cs) = Inl IntCastingNaNError"
| "astype_int_cells (Num NegInf # cs) = Inl IntCastingNaNError"
| "astype_int_cells (NaN # cs) = Inl IntCastingNaNError"
| "astype_int_cells (NA # cs) = Inl TypeError"
| "astype_int_cells (Str s # cs) = Inl ValueError"

definition astype_int :: "series \<Rightarrow> error + series" where
  "astype_int s =
     (case astype_int_cells (vals s) of
        Inl e \<Rightarrow> Inl e
      | Inr ds \<Rightarrow> Inr \<lparr>dtype = Int64, vals = ds\<rparr>)"

text \<open>
  \<open>Series.map(d)\<close> with a dictionary whose keys are strings and whose values are
  integers: a cell that is not a key becomes \<open>NaN\<close>.  The result is an integer column
  when every cell was mapped and a float column otherwise.
\<close>

fun map_cell :: "(string \<rightharpoonup> int) \<Rightarrow> cell \<Rightarrow> cell" where
  "map_cell d (Str s) = (case d s of Some v \<Rightarrow> Num (Fin (of_int v)) | None \<Rightarrow> NaN)"
| "map_cell d (Num n) = NaN"
| "map_cell d NaN = NaN"
| "map_cell d NA = NaN"

definition map_dict :: "(string \<rightharpoonup> int) \<Rightarrow> series \<Rightarrow> series" where
  "map_dict d s =
     (let cs = map (map_cell d) (vals s)
      in \<lparr>dtype = (if list_ex isna cs then Float64 else Int64), vals = cs\<rparr>)"

text \<open>
  \<open>replace(d)\<close> with a dictionary whose keys are strings: a text cell equal to a key
  is replaced by the key's value, every other cell is kept.
\<close>

fun replace_cell :: "(string \<rightharpoonup> cell) \<Rightarrow> cell \<Rightarrow> cell" where
  "replace_cell d (Str s) = (case d s of Some v \<Rightarrow> v | None \<Rightarrow> Str s)"
| "replace_cell d (Num n) = Num n"
| "replace_cell d NaN = NaN"
| "replace_cell d NA = NA"

definition replace_dict :: "(string \<rightharpoonup> cell) \<Rightarrow> series \<Rightarrow> series" where
  "replace_dict d s = s\<lparr>vals := map (replace_cell d) (vals s)\<rparr>"

text \<open>\<open>s.fillna(other)\<close>: a missing cell of \<open>s\<close> takes the cell of \<open>other\<close> in its row.\<close>

definition fillna :: "series \<Rightarrow> series \<Rightarrow> series" where
  "fillna s other = s\<lparr>vals := map2 (\<lambda>x y. if isna x then y else x) (vals s) (vals other)\<rparr>"

text \<open>
  \<open>pd.to_numeric(s, errors="coerce")\<close>.  The parser of numeric text is a parameter
  \<open>parse\<close>: \<open>None\<close> for text that is no number.  A number is kept, text that parses
  becomes its number, everything else becomes \<open>NaN\<close>.  A numeric column keeps its
  dtype; an object column becomes an integer column when every cell is an integer and
  a float column otherwise.
\<close>

fun to_numeric_cell :: "(string \<Rightarrow> number option) \<Rightarrow> cell \<Rightarrow> cell" where
  "to_numeric_cell parse (Str s) = (case parse s of Some n \<Rightarrow> Num n | None \<Rightarrow> NaN)"
| "to_numeric_cell parse (Num n) = Num n"
| "to_numeric_cell parse NaN = NaN"
| "to_numeric_cell parse NA = NaN"

fun is_int_cell :: "cell \<Rightarrow> bool" where
  "is_int_cell (Num (Fin r)) = (of_int \<lfloor>r\<rfloor> = r)"
| "is_int_cell _ = False"

definition to_numeric :: "(string \<Rightarrow> number option) \<Rightarrow> series \<Rightarrow> series" where
  "to_numeric parse s =
     (let cs = map (to_numeric_cell parse) (vals s)
      in \<lparr>dtype = (if is_numeric_dtype (dtype s) then dtype s
                   else if list_all is_int_cell cs then Int64 else Float64),
          vals = cs\<rparr>)"

subsection \<open>The schema normaliser (second half of \<open>load_wbcd_from_zip\<close>)\<close>

definition COLUMN_NAMES :: "string list" where
  "COLUMN_NAMES =
     [''id'', ''diagnosis'',
      ''radius_mean'', ''texture_mean'', ''perimeter_mean'', ''area_mean'', ''smoothness_mean'',
      ''compactness_mean'', ''concavity_mean'', ''concave_points_mean'', ''symmetry_mean'',
      ''fractal_dimension_mean'',
      ''radius_se'', ''texture_se'', ''perimeter_se'', ''area_se'', ''smoothness_se'',
      ''compactness_se'', ''concavity_se'', ''concave_points_se'', ''symmetry_se'',
      ''fractal_dimension_se'',
      ''radius_worst'', ''texture_worst'', ''perimeter_worst'', ''area_worst'',
      ''smoothness_worst'', ''compactness_worst'', ''concavity_worst'',
      ''concave_points_worst'', ''symmetry_worst'', ''fractal_dimension_worst'']"

text \<open>\<open>c.strip().lower().replace(" ", "_")\<close>, applied to every label.\<close>

definition normalize_name :: "string \<Rightarrow> string" where
  "normalize_name c = replace_blank (lower (strip c))"

definition normalize_names :: "table \<Rightarrow> table" where
  "normalize_names df = map (\<lambda>(n, s). (normalize_name n, s)) df"

text \<open>
  The condition inside the \<open>try\<close>:
  \<open>is_numeric_dtype(df[first_col]) and df[first_col].nunique() > 0.9 * len(df)\<close>.
  The count \<open>k\<close> is an integer and the product is the double nearest to
  \<open>0.9 * n\<close>; for every row count below \<open>10^14\<close> that double is above, equal to or
  below \<open>k\<close> exactly when \<open>9 * n\<close> is above, equal to or below \<open>10 * k\<close> (where
  \<open>0.9 * n\<close> is an integer the product is that integer, and elsewhere it is a tenth
  away from every integer), so the comparison is written over the naturals.
\<close>

definition id_heuristic :: "table \<Rightarrow> string \<Rightarrow> error + bool" where
  "id_heuristic df c =
     (case getitem df c of
        Inl e \<Rightarrow> Inl e
      | Inr s \<Rightarrow> Inr (is_numeric_dtype (dtype s) \<and> 9 * len_df df < 10 * nunique s))"

text \<open>
  The normaliser, with the evaluation of the \<open>try\<close> body's condition as a parameter
  \<open>heur\<close>, so that both outcomes of the \<open>try\<close> are branches: a truth value, or an
  exception, which \<open>except Exception: pass\<close> discards.
\<close>

definition normalize_with :: "(table \<Rightarrow> string \<Rightarrow> error + bool) \<Rightarrow> table \<Rightarrow> error + table" where
  "normalize_with heur df =
     (let df1 = normalize_names df in
      if ''diagnosis'' \<notin> set (columns df1) then Inl ValueError
      else
        (case columns df1 of
           [] \<Rightarrow> Inl IndexError
         | first_col # _ \<Rightarrow>
             if first_col = ''id'' then Inr df1
             else
               (case heur df1 first_col of
                  Inr True \<Rightarrow> Inr (rename_column first_col ''id'' df1)
                | Inr False \<Rightarrow> Inr df1
                | Inl e \<Rightarrow> Inr df1)))"

definition normalize_columns :: "table \<Rightarrow> error + table" where
  "normalize_columns df = normalize_with id_heuristic df"

text \<open>
  \<open>load_wbcd_from_zip\<close>.  The archive is the list of its members (name and bytes), or
  \<open>None\<close> when the path does not exist.  \<open>pd.read_csv\<close> is a parameter: it receives
  the bytes and, for a member without a header, the names to assign.
\<close>

definition load_wbcd_from_zip ::
  "(string \<Rightarrow> string list option \<Rightarrow> error + table) \<Rightarrow> (string \<times> string) list option
     \<Rightarrow> error + table" where
  "load_wbcd_from_zip read_csv zip_file =
     (case zip_file of
        None \<Rightarrow> Inl FileNotFoundError
      | Some z \<Rightarrow>
          (case find_data_member (map fst z) of
             Inl e \<Rightarrow> Inl e
           | Inr (member, has_header) \<Rightarrow>
               (case map_of z member of
                  None \<Rightarrow> Inl KeyError
                | Some raw \<Rightarrow>
                    (case read_csv raw (if has_header then None else Some COLUMN_NAMES) of
                       Inl e \<Rightarrow> Inl e
                     | Inr df \<Rightarrow> normalize_columns df))))"

subsection \<open>The preprocessor\<close>

definition mapping :: "string \<rightharpoonup> int" where
  "mapping = map_of [(''M'', 1), (''B'', 0), (''m'', 1), (''b'', 0)]"

definition alt_map :: "string \<rightharpoonup> cell" where
  "alt_map = map_of [(''Maligno'', Num (Fin 1)), (''Benigno'', Num (Fin 0)),
                     (''maligno'', Num (Fin 1)), (''benigno'', Num (Fin 0))]"

definition sentinels :: "string \<rightharpoonup> cell" where
  "sentinels = map_of [(''?'', NA), (''NA'', NA), (''null'', NA), (''None'', NA)]"

text \<open>
  The label encoding (the first block of \<open>preprocess\<close>).  Every assignment
  \<open>df["diagnosis"] = ...\<close> writes into the table the caller passed, so the block returns
  that table as the assignments leave it, together with the exception raised, if any.
  Each right-hand side reads \<open>df["diagnosis"]\<close> again, which is the column the
  assignment before it stored: the second pass works on the mapped column.
\<close>

definition encode_diagnosis :: "table \<Rightarrow> table \<times> error option" where
  "encode_diagnosis df =
     (case getitem df ''diagnosis'' of
        Inl e \<Rightarrow> (df, Some e)
      | Inr d \<Rightarrow>
          if is_numeric_dtype (dtype d) then
            (case astype_int d of
               Inl e \<Rightarrow> (df, Some e)
             | Inr d' \<Rightarrow> (setitem ''diagnosis'' d' df, None))
          else
            (let d1 = map_dict mapping d;
                 df1 = setitem ''diagnosis'' d1 df;
                 d2 = (if isna_any d1 then fillna d1 (replace_dict alt_map d1) else d1);
                 df2 = (if isna_any d1 then setitem ''diagnosis'' d2 df1 else df1)
             in case astype_int d2 of
                  Inl e \<Rightarrow> (df2, Some e)
                | Inr d3 \<Rightarrow> (setitem ''diagnosis'' d3 df2, None)))"

text \<open>The labels of the columns that the \<open>else\<close> branch of the identifier removal drops.\<close>

definition candidate_ids :: "table \<Rightarrow> string list" where
  "candidate_ids df = filter (\<lambda>c. c = ''id'' \<or> c = ''unnamed: 0'') (columns df)"

text \<open>
  The loop \<open>for c in feature_cols: df[c] = pd.to_numeric(df[c], errors="coerce")\<close>.
\<close>

fun coerce_loop :: "(string \<Rightarrow> number option) \<Rightarrow> string list \<Rightarrow> table \<Rightarrow> error + table" where
  "coerce_loop parse [] df = Inr df"
| "coerce_loop parse (c # cs) df =
     (case getitem df c of
        Inl e \<Rightarrow> Inl e
      | Inr s \<Rightarrow> coerce_loop parse cs (setitem c (to_numeric parse s) df))"

definition replace_sentinels :: "table \<Rightarrow> table" where
  "replace_sentinels df = map (\<lambda>(n, s). (n, replace_dict sentinels s)) df"

definition feature_cols :: "table \<Rightarrow> string list" where
  "feature_cols df = filter (\<lambda>c. c \<noteq> ''diagnosis'') (columns df)"

text \<open>
  The store.  Python passes a \<open>DataFrame\<close> by reference, so \<open>preprocess\<close> runs on a
  heap of tables: a reference is an index into the heap, an assignment to a column
  updates the table at the reference held by \<open>df\<close>, and \<open>drop\<close> and \<open>replace\<close>
  allocate a new table, to which \<open>df\<close> is then bound.
\<close>

type_synonym heap = "table list"

definition alloc :: "heap \<Rightarrow> table \<Rightarrow> heap \<times> nat" where
  "alloc h t = (h @ [t], length h)"

definition drop_id_heap :: "heap \<Rightarrow> nat \<Rightarrow> error + heap \<times> nat" where
  "drop_id_heap h r =
     (case columns (h ! r) of
        [] \<Rightarrow> Inl IndexError
      | c0 # _ \<Rightarrow>
          if c0 = ''id'' then Inr (alloc h (drop_columns [''id''] (h ! r)))
          else if candidate_ids (h ! r) \<noteq> []
          then Inr (alloc h (drop_columns (candidate_ids (h ! r)) (h ! r)))
          else Inr (h, r))"

definition preprocess_heap ::
  "(string \<Rightarrow> number option) \<Rightarrow> heap \<Rightarrow> nat \<Rightarrow> heap \<times> (error + nat)" where
  "preprocess_heap parse h r =
     (case encode_diagnosis (h ! r) of
        (t1, Some e) \<Rightarrow> (h[r := t1], Inl e)
      | (t1, None) \<Rightarrow>
          (case drop_id_heap (h[r := t1]) r of
             Inl e \<Rightarrow> (h[r := t1], Inl e)
           | Inr (h2, r2) \<Rightarrow>
               (case alloc h2 (replace_sentinels (h2 ! r2)) of
                  (h3, r3) \<Rightarrow>
                    (case coerce_loop parse (feature_cols (h3 ! r3)) (h3 ! r3) of
                       Inl e \<Rightarrow> (h3, Inl e)
                     | Inr t \<Rightarrow> (h3[r3 := t], Inr r3)))))"

text \<open>\<open>preprocess\<close> as a function of the table passed: the table it returns.\<close>

definition preprocess :: "(string \<Rightarrow> number option) \<Rightarrow> table \<Rightarrow> error + table" where
  "preprocess parse df =
     (case preprocess_heap parse [df] 0 of
        (h, Inl e) \<Rightarrow> Inl e
      | (h, Inr r) \<Rightarrow> Inr (h ! r))"

text \<open>
  The table to which \<open>df\<close> is bound after the identifier removal: the first branch
  drops the label \<open>id\<close>, the second the candidate labels (none, when there is none).
\<close>

definition without_ids :: "table \<Rightarrow> table" where
  "without_ids df =
     (case columns df of
        [] \<Rightarrow> df
      | c0 # _ \<Rightarrow>
          if c0 = ''id'' then drop_columns [''id''] df
          else drop_columns (candidate_ids df) df)"

text \<open>
  The table \<open>preprocess\<close> returns, from the table the label encoding leaves: the
  identifier removal, the sentinel replacement, then the coercion of every column but
  \<open>diagnosis\<close>.
\<close>

definition final_table :: "(string \<Rightarrow> number option) \<Rightarrow> table \<Rightarrow> table" where
  "final_table parse t1 =
     map (\<lambda>(n, s). if n \<noteq> ''diagnosis'' then (n, to_numeric parse s) else (n, s))
       (replace_sentinels (without_ids t1))"

subsection \<open>Normalisation followed by preprocessing\<close>

definition normalize_preprocess :: "(string \<Rightarrow> number option) \<Rightarrow> table \<Rightarrow> error + table" where
  "normalize_preprocess parse df =
     (case normalize_columns df of
        Inl e \<Rightarrow> Inl e
      | Inr t \<Rightarrow> preprocess parse t)"

text \<open>
  The Clean Table of the specification: \<open>diagnosis\<close> is an integer column of zeros and
  ones, no column is labelled \<open>id\<close>, every other column is numeric and holds numbers
  and missing markers only, and the labels are pairwise distinct.
\<close>

fun is_label :: "cell \<Rightarrow> bool" where
  "is_label (Num (Fin r)) = (r = 0 \<or> r = 1)"
| "is_label _ = False"

fun is_text :: "cell \<Rightarrow> bool" where
  "is_text (Str s) = True"
| "is_text _ = False"

definition is_clean :: "table \<Rightarrow> bool" where
  "is_clean df =
     (distinct (columns df)
      \<and> (case getitem df ''diagnosis'' of
            Inl e \<Rightarrow> False
          | Inr d \<Rightarrow> dtype d = Int64 \<and> list_all is_label (vals d))
      \<and> ''id'' \<notin> set (columns df)
      \<and> list_all (\<lambda>(n, s). n = ''diagnosis''
                     \<or> (is_numeric_dtype (dtype s) \<and> \<not> list_ex is_text (vals s))) df)"

text \<open>
  A valid label column: a numeric column of finite numbers, or a column of another
  dtype whose cells are all keys of \<open>mapping\<close>.
\<close>

fun is_finite :: "cell \<Rightarrow> bool" where
  "is_finite (Num (Fin r)) = True"
| "is_finite _ = False"

fun is_mapped :: "cell \<Rightarrow> bool" where
  "is_mapped (Str s) = (s = ''M'' \<or> s = ''B'' \<or> s = ''m'' \<or> s = ''b'')"
| "is_mapped _ = False"

definition valid_labels :: "table \<Rightarrow> bool" where
  "valid_labels df =
     (case getitem df ''diagnosis'' of
        Inl e \<Rightarrow> False
      | Inr d \<Rightarrow>
          if is_numeric_dtype (dtype d) then list_all is_finite (vals d)
          else list_all is_mapped (vals d))"

text \<open>A condition whose evaluation raises, for the \<open>except\<close> branch of the normaliser.\<close>

definition raising_heuristic :: "table \<Rightarrow> string \<Rightarrow> error + bool" where
  "raising_heuristic df c = Inl TypeError"

subsection \<open>A parser for the examples\<close>

text \<open>
  The theorems hold for every parser of numeric text.  The examples run the model
  with the parser of unsigned decimal integers.
\<close>

definition digit :: "char \<Rightarrow> nat option" where
  "digit c = (let n = (of_char c :: nat) in if 48 \<le> n \<and> n \<le> 57 then Some (n - 48) else None)"

fun parse_digits :: "nat \<Rightarrow> string \<Rightarrow> nat option" where
  "parse_digits a [] = Some a"
| "parse_digits a (c # cs) =
     (case digit c of None \<Rightarrow> None | Some d \<Rightarrow> parse_digits (10 * a + d) cs)"

definition parse_unsigned :: "string \<Rightarrow> number option" where
  "parse_unsigned s =
     (if s = [] then None else map_option (\<lambda>n. Fin (of_nat n)) (parse_digits 0 s))"

section \<open>Properties\<close>

lemmas string_defs =
  lower_def lower_char_def is_upper_def endswith_def strip_def is_space_def replace_blank_def

lemmas member_defs = member_files_def is_wdbc_def is_csv_def is_data_def

lemmas series_defs =
  astype_int_def map_dict_def replace_dict_def fillna_def isna_any_def to_numeric_def
  nunique_def trunc_rat_def mapping_def alt_map_def sentinels_def

lemmas table_defs =
  columns_def len_df_def getitem_def setitem_def drop_columns_def rename_column_def
  candidate_ids_def feature_cols_def replace_sentinels_def without_ids_def final_table_def

lemmas run_defs =
  encode_diagnosis_def drop_id_heap_def alloc_def preprocess_heap_def preprocess_def
  normalize_name_def normalize_names_def id_heuristic_def normalize_with_def
  normalize_columns_def normalize_preprocess_def

subsection \<open>The archive locator\<close>

lemma first_match_find: "first_match p xs = List.find p xs"
  by (induction xs) simp_all

lemma first_match_first:
  "i < length xs \<Longrightarrow> p (xs ! i) \<Longrightarrow> (\<forall>j<i. \<not> p (xs ! j)) \<Longrightarrow> first_match p xs = Some (xs ! i)"
  unfolding first_match_find find_Some_iff by blast

lemma first_match_none: "first_match p xs = None \<longleftrightarrow> (\<forall>x\<in>set xs. \<not> p x)"
  unfolding first_match_find find_None_iff by blast

text \<open>
  Claim C2.  Let \<open>files\<close> be the members of the archive that are not directories,
  in listing order.  The locator returns the first member whose lower-cased name ends
  in \<open>wdbc.data\<close>, with no header; when there is none, the first member ending in
  \<open>.csv\<close>, with a header; when there is none either, the first member ending in
  \<open>.data\<close>, with no header.  It raises exactly when no member matches any of the three
  rules, and the exception is then the not-found error.
\<close>

theorem find_data_member_priority:
  fixes names :: "string list"
  defines "files \<equiv> member_files names"
  shows
   "(\<forall>i<length files. is_wdbc (files ! i) \<and> (\<forall>j<i. \<not> is_wdbc (files ! j))
        \<longrightarrow> find_data_member names = Inr (files ! i, False))
    \<and> ((\<forall>nm\<in>set files. \<not> is_wdbc nm) \<longrightarrow>
         (\<forall>i<length files. is_csv (files ! i) \<and> (\<forall>j<i. \<not> is_csv (files ! j))
            \<longrightarrow> find_data_member names = Inr (files ! i, True)))
    \<and> ((\<forall>nm\<in>set files. \<not> is_wdbc nm \<and> \<not> is_csv nm) \<longrightarrow>
         (\<forall>i<length files. is_data (files ! i) \<and> (\<forall>j<i. \<not> is_data (files ! j))
            \<longrightarrow> find_data_member names = Inr (files ! i, False)))
    \<and> ((\<exists>e. find_data_member names = Inl e) \<longleftrightarrow>
           (\<forall>nm\<in>set files. \<not> is_wdbc nm \<and> \<not> is_csv nm \<and> \<not> is_data nm))
    \<and> (\<forall>e. find_data_member names = Inl e \<longrightarrow> e = FileNotFoundError)"
proof (intro conjI allI impI)
  fix i assume "i < length files" "is_wdbc (files ! i) \<and> (\<forall>j<i. \<not> is_wdbc (files ! j))"
  then have "first_match is_wdbc files = Some (files ! i)"
    by (simp add: first_match_first)
  then show "find_data_member names = Inr (files ! i, False)"
    by (simp add: find_data_member_def files_def)
next
  fix i assume "\<forall>nm\<in>set files. \<not> is_wdbc nm"
    and "i < length files" "is_csv (files ! i) \<and> (\<forall>j<i. \<not> is_csv (files ! j))"
  then have "first_match is_wdbc files = None" "first_match is_csv files = Some (files ! i)"
    by (simp_all add: first_match_first first_match_none)
  then show "find_data_member names = Inr (files ! i, True)"
    by (simp add: find_data_member_def files_def)
next
  fix i assume "\<forall>nm\<in>set files. \<not> is_wdbc nm \<and> \<not> is_csv nm"
    and "i < length files" "is_data (files ! i) \<and> (\<forall>j<i. \<not> is_data (files ! j))"
  then have "first_match is_wdbc files = None" "first_match is_csv files = None"
    "first_match is_data files = Some (files ! i)"
    by (simp_all add: first_match_first first_match_none)
  then show "find_data_member names = Inr (files ! i, False)"
    by (simp add: find_data_member_def files_def)
next
  show "(\<exists>e. find_data_member names = Inl e) \<longleftrightarrow>
           (\<forall>nm\<in>set files. \<not> is_wdbc nm \<and> \<not> is_csv nm \<and> \<not> is_data nm)"
    using first_match_none[of is_wdbc files] first_match_none[of is_csv files]
      first_match_none[of is_data files]
    by (auto simp: find_data_member_def files_def Let_def split: option.splits)
next
  fix e assume "find_data_member names = Inl e"
  then show "e = FileNotFoundError"
    by (auto simp: find_data_member_def Let_def split: option.splits)
qed

text \<open>
  An archive with a directory, a text file, a generic \<open>.DATA\<close> member and two CSV
  members: there is no \<open>wdbc.data\<close>, so the first CSV member wins over the \<open>.DATA\<close>
  member listed before it.
\<close>

theorem find_data_member_priority_witness:
  "find_data_member [''data/'', ''data/notes.txt'', ''data/b.DATA'', ''data/a.CSV'', ''data/c.csv'']
     = Inr (''data/a.CSV'', True)"
proof -
  let ?names = "[''data/'', ''data/notes.txt'', ''data/b.DATA'', ''data/a.CSV'', ''data/c.csv'']"
  have files:
    "member_files ?names = [''data/notes.txt'', ''data/b.DATA'', ''data/a.CSV'', ''data/c.csv'']"
    by (simp add: member_defs string_defs)
  have no_wdbc: "\<forall>nm\<in>set (member_files ?names). \<not> is_wdbc nm"
    unfolding files by (simp add: member_defs string_defs)
  have first_csv:
    "is_csv (member_files ?names ! 2) \<and> (\<forall>j<2. \<not> is_csv (member_files ?names ! j))"
    unfolding files by (simp add: member_defs string_defs less_Suc_eq eval_nat_numeral)
  have "(2::nat) < length (member_files ?names)"
    unfolding files by simp
  with find_data_member_priority[of ?names] no_wdbc first_csv
  have "find_data_member ?names = Inr (member_files ?names ! 2, True)"
    by blast
  then show ?thesis
    unfolding files by simp
qed

subsection \<open>Tables: reading and writing columns\<close>

lemma columns_setitem: "c \<in> set (columns df) \<Longrightarrow> columns (setitem c s df) = columns df"
  by (induction df) (auto simp: setitem_def columns_def)

lemma setitem_setitem:
  "c \<in> set (columns df) \<Longrightarrow> setitem c s (setitem c s' df) = setitem c s df"
  by (auto simp: setitem_def columns_def image_iff split: prod.splits)

lemma getitem_setitem_same:
  "c \<in> set (columns df) \<Longrightarrow> getitem (setitem c s df) c = Inr s"
  by (induction df) (auto simp: setitem_def columns_def getitem_def)

lemma map_of_replace_other:
  "c' \<noteq> c \<Longrightarrow>
     map_of (map (\<lambda>(n, x). if n = c then (n, s) else (n, x)) df) c' = map_of df c'"
  by (induction df) auto

lemma getitem_setitem_other:
  assumes "c' \<noteq> c"
  shows "getitem (setitem c s df) c' = getitem df c'"
proof (cases "c \<in> set (columns df)")
  case True
  with assms show ?thesis
    by (simp add: getitem_def setitem_def map_of_replace_other)
next
  case False
  with assms show ?thesis
    by (auto simp: getitem_def setitem_def map_add_def split: option.splits)
qed

lemma getitem_Inr_columns:
  assumes "getitem df c = Inr s"
  shows "c \<in> set (columns df)"
proof -
  from assms have "map_of df c = Some s"
    by (simp add: getitem_def split: option.splits)
  then have "(c, s) \<in> set df"
    by (rule map_of_SomeD)
  then have "fst (c, s) \<in> fst ` set df"
    by (rule imageI)
  then show ?thesis
    by (simp add: columns_def)
qed

lemma getitem_columns: "c \<in> set (columns df) \<Longrightarrow> \<exists>s. getitem df c = Inr s"
  by (cases "map_of df c") (auto simp: getitem_def columns_def map_of_eq_None_iff)

lemma setitem_map:
  "c \<in> set (columns df) \<Longrightarrow>
     setitem c s df = map (\<lambda>(n, x). if n = c then (n, s) else (n, x)) df"
  by (simp add: setitem_def)

lemma map_of_distinct_entry:
  "distinct (columns df) \<Longrightarrow> (n, x) \<in> set df \<Longrightarrow> map_of df n = Some x"
  by (simp add: columns_def)

lemma coerce_loop_map:
  "distinct (columns df) \<Longrightarrow> distinct cs \<Longrightarrow> set cs \<subseteq> set (columns df) \<Longrightarrow>
     coerce_loop parse cs df =
       Inr (map (\<lambda>(n, s). if n \<in> set cs then (n, to_numeric parse s) else (n, s)) df)"
proof (induction cs arbitrary: df)
  case Nil
  then show ?case by simp
next
  case (Cons c cs)
  from Cons.prems obtain s where s: "getitem df c = Inr s"
    using getitem_columns[of c df] by auto
  let ?df' = "setitem c (to_numeric parse s) df"
  have cin: "c \<in> set (columns df)" using Cons.prems by simp
  have cols: "columns ?df' = columns df" using cin by (rule columns_setitem)
  have ih: "coerce_loop parse cs ?df' =
      Inr (map (\<lambda>(n, s). if n \<in> set cs then (n, to_numeric parse s) else (n, s)) ?df')"
    using Cons.prems by (intro Cons.IH) (simp_all add: cols)
  have "map (\<lambda>(n, s). if n \<in> set cs then (n, to_numeric parse s) else (n, s)) ?df' =
        map (\<lambda>(n, s). if n \<in> set (c # cs) then (n, to_numeric parse s) else (n, s)) df"
    unfolding setitem_map[OF cin] map_map
  proof (rule map_cong[OF refl])
    fix e assume e: "e \<in> set df"
    obtain n x where nx: "e = (n, x)" by (cases e)
    show "((\<lambda>(n, s). if n \<in> set cs then (n, to_numeric parse s) else (n, s)) \<circ>
            (\<lambda>(n, x). if n = c then (n, to_numeric parse s) else (n, x))) e =
          (case e of (n, s) \<Rightarrow> if n \<in> set (c # cs) then (n, to_numeric parse s) else (n, s))"
    proof (cases "n = c")
      case True
      with e nx Cons.prems(1) have "map_of df c = Some x"
        by (simp add: map_of_distinct_entry)
      with s have "x = s" by (simp add: getitem_def)
      with True nx Cons.prems(2) show ?thesis by simp
    next
      case False
      with nx show ?thesis by simp
    qed
  qed
  with ih s show ?case by simp
qed

lemma coerce_features_map:
  assumes "distinct (columns df)"
  shows "coerce_loop parse (feature_cols df) df =
     Inr (map (\<lambda>(n, s). if n \<noteq> ''diagnosis'' then (n, to_numeric parse s) else (n, s)) df)"
proof -
  have "coerce_loop parse (feature_cols df) df =
     Inr (map (\<lambda>(n, s). if n \<in> set (feature_cols df) then (n, to_numeric parse s) else (n, s)) df)"
    using assms by (intro coerce_loop_map) (auto simp: feature_cols_def)
  moreover have "map (\<lambda>(n, s). if n \<in> set (feature_cols df) then (n, to_numeric parse s) else (n, s)) df
     = map (\<lambda>(n, s). if n \<noteq> ''diagnosis'' then (n, to_numeric parse s) else (n, s)) df"
  proof (rule map_cong[OF refl])
    fix e assume "e \<in> set df"
    then have "fst e \<in> set (columns df)"
      by (simp add: columns_def)
    then have "fst e \<in> set (feature_cols df) \<longleftrightarrow> fst e \<noteq> ''diagnosis''"
      by (simp add: feature_cols_def)
    then show "(case e of (n, s) \<Rightarrow>
                 if n \<in> set (feature_cols df) then (n, to_numeric parse s) else (n, s)) =
               (case e of (n, s) \<Rightarrow>
                 if n \<noteq> ''diagnosis'' then (n, to_numeric parse s) else (n, s))"
      by (simp add: case_prod_unfold)
  qed
  ultimately show ?thesis by simp
qed

subsection \<open>The structure of \<open>preprocess\<close>\<close>

lemma astype_int_cells_length:
  "astype_int_cells cs = Inr ds \<Longrightarrow> length ds = length cs"
  by (induction cs arbitrary: ds rule: astype_int_cells.induct) (auto split: sum.splits)

lemma astype_int_cells_no_text:
  "astype_int_cells cs = Inr ds \<Longrightarrow> \<not> list_ex is_text ds"
  by (induction cs arbitrary: ds rule: astype_int_cells.induct) (auto split: sum.splits)

lemma astype_int_dtype: "astype_int s = Inr s' \<Longrightarrow> dtype s' = Int64"
  by (auto simp: astype_int_def split: sum.splits)

lemma astype_int_no_text: "astype_int s = Inr s' \<Longrightarrow> \<not> list_ex is_text (vals s')"
  by (auto simp: astype_int_def split: sum.splits dest: astype_int_cells_no_text)

lemma encode_diagnosis_success:
  assumes "encode_diagnosis df = (t1, None)"
  shows "\<exists>d d'. getitem df ''diagnosis'' = Inr d \<and> t1 = setitem ''diagnosis'' d' df
           \<and> dtype d' = Int64 \<and> \<not> list_ex is_text (vals d')"
proof -
  from assms obtain d where d: "getitem df ''diagnosis'' = Inr d"
    by (auto simp: encode_diagnosis_def split: sum.splits)
  then have cin: "''diagnosis'' \<in> set (columns df)"
    by (rule getitem_Inr_columns)
  show ?thesis
  proof (cases "is_numeric_dtype (dtype d)")
    case True
    with assms d obtain d' where "astype_int d = Inr d'" "t1 = setitem ''diagnosis'' d' df"
      by (auto simp: encode_diagnosis_def split: sum.splits)
    with d show ?thesis
      by (auto dest: astype_int_dtype astype_int_no_text)
  next
    case False
    with assms d cin show ?thesis
      by (auto simp: encode_diagnosis_def Let_def setitem_setitem columns_setitem
          split: sum.splits if_splits dest: astype_int_dtype astype_int_no_text)
  qed
qed

lemma encode_diagnosis_columns:
  "encode_diagnosis df = (t1, None) \<Longrightarrow> columns t1 = columns df"
  by (auto dest!: encode_diagnosis_success getitem_Inr_columns simp: columns_setitem)

lemma columns_drop_columns: "columns (drop_columns ls df) = filter (\<lambda>n. n \<notin> set ls) (columns df)"
  by (induction df) (auto simp: drop_columns_def columns_def)

lemma columns_replace_sentinels: "columns (replace_sentinels df) = columns df"
  by (induction df) (auto simp: replace_sentinels_def columns_def)

lemma distinct_without_ids: "distinct (columns df) \<Longrightarrow> distinct (columns (without_ids df))"
  by (auto simp: without_ids_def columns_drop_columns split: list.splits)

lemma drop_id_heap_result:
  assumes "r < length h" "columns (h ! r) \<noteq> []"
  shows "\<exists>h2 r2. drop_id_heap h r = Inr (h2, r2) \<and> h2 ! r2 = without_ids (h ! r)
           \<and> (r2 = r \<and> h2 = h \<or> r2 = length h \<and> h2 = h @ [without_ids (h ! r)])"
proof -
  from assms(2) obtain c0 cs where cols: "columns (h ! r) = c0 # cs"
    by (cases "columns (h ! r)") auto
  have nodrop: "candidate_ids (h ! r) = [] \<Longrightarrow> drop_columns (candidate_ids (h ! r)) (h ! r) = h ! r"
    by (simp add: drop_columns_def)
  show ?thesis
    using cols nodrop by (auto simp: drop_id_heap_def without_ids_def alloc_def)
qed

lemma preprocess_heap_success:
  assumes r: "r < length h" and dist: "distinct (columns (h ! r))"
    and enc: "encode_diagnosis (h ! r) = (t1, None)"
  shows "\<exists>h' r'. preprocess_heap parse h r = (h', Inr r') \<and> length h \<le> r' \<and> r' < length h'
           \<and> h' ! r' = final_table parse t1 \<and> h' ! r = t1
           \<and> (\<forall>q<length h. q \<noteq> r \<longrightarrow> h' ! q = h ! q)"
proof -
  let ?h1 = "h[r := t1]"
  have cols1: "columns t1 = columns (h ! r)"
    using enc by (rule encode_diagnosis_columns)
  from enc have "''diagnosis'' \<in> set (columns (h ! r))"
    by (auto dest!: encode_diagnosis_success getitem_Inr_columns)
  with cols1 have ne: "columns (?h1 ! r) \<noteq> []"
    using r by auto
  have r1: "r < length ?h1" using r by simp
  from drop_id_heap_result[OF r1 ne] r obtain h2 r2 where
    dr: "drop_id_heap ?h1 r = Inr (h2, r2)" and t2: "h2 ! r2 = without_ids t1"
    and alt: "r2 = r \<and> h2 = ?h1 \<or> r2 = length h \<and> h2 = ?h1 @ [without_ids t1]"
    by auto
  let ?t3 = "replace_sentinels (without_ids t1)"
  have "distinct (columns ?t3)"
    using dist cols1 by (simp add: columns_replace_sentinels distinct_without_ids)
  then have loop: "coerce_loop parse (feature_cols ?t3) ?t3 = Inr (final_table parse t1)"
    unfolding final_table_def by (rule coerce_features_map)
  let ?h' = "(h2 @ [?t3])[length h2 := final_table parse t1]"
  have res: "preprocess_heap parse h r = (?h', Inr (length h2))"
    using enc dr t2 loop by (simp add: preprocess_heap_def alloc_def)
  have len2: "length h \<le> length h2" using alt by auto
  have keep: "\<forall>q<length h. h2 ! q = ?h1 ! q"
    using alt by (auto simp: nth_append)
  have "?h' ! r = t1"
    using r len2 keep by (simp add: nth_append)
  moreover have "\<forall>q<length h. q \<noteq> r \<longrightarrow> ?h' ! q = h ! q"
    using len2 keep by (simp add: nth_append)
  moreover have "?h' ! length h2 = final_table parse t1"
    by simp
  ultimately show ?thesis
    using res len2 by auto
qed

lemma preprocess_success:
  assumes "distinct (columns df)" "encode_diagnosis df = (t1, None)"
  shows "preprocess parse df = Inr (final_table parse t1)"
  using preprocess_heap_success[of 0 "[df]" t1 parse] assms
  by (auto simp: preprocess_def)

lemma preprocess_failure:
  assumes "encode_diagnosis df = (t1, Some e)"
  shows "preprocess parse df = Inl e"
  using assms by (simp add: preprocess_def preprocess_heap_def)

lemma map_of_keyed_map:
  "map_of (map (\<lambda>(n, s). (n, f n s)) df) c = map_option (f c) (map_of df c)"
  by (induction df) auto

lemma map_of_drop_columns:
  "map_of (drop_columns ls df) c = (if c \<in> set ls then None else map_of df c)"
  by (induction df) (auto simp: drop_columns_def)

lemma getitem_final_table:
  "getitem (final_table parse t1) c =
     (case getitem (without_ids t1) c of
        Inl e \<Rightarrow> Inl e
      | Inr s \<Rightarrow> Inr (if c \<noteq> ''diagnosis'' then to_numeric parse (replace_dict sentinels s)
                     else replace_dict sentinels s))"
proof -
  have "final_table parse t1 =
      map (\<lambda>(n, s). (n, if n \<noteq> ''diagnosis'' then to_numeric parse (replace_dict sentinels s)
                         else replace_dict sentinels s)) (without_ids t1)"
    by (simp add: final_table_def replace_sentinels_def case_prod_unfold)
  then show ?thesis
    by (simp add: getitem_def map_of_keyed_map split: option.splits)
qed

lemma getitem_without_ids:
  "getitem (without_ids df) c = Inr s \<Longrightarrow> getitem df c = Inr s"
  by (auto simp: getitem_def without_ids_def map_of_drop_columns
      split: option.splits list.splits if_splits)

lemma getitem_without_ids_diagnosis:
  "getitem (without_ids df) ''diagnosis'' = getitem df ''diagnosis''"
  by (auto simp: getitem_def without_ids_def map_of_drop_columns candidate_ids_def
      split: option.splits list.splits)

lemma replace_cell_no_text: "\<not> is_text c \<Longrightarrow> replace_cell d c = c"
  by (cases c) auto

lemma replace_dict_no_text: "\<not> list_ex is_text (vals s) \<Longrightarrow> replace_dict d s = s"
  by (simp add: replace_dict_def list_ex_iff replace_cell_no_text map_idI)

lemma preprocess_Inr:
  assumes "distinct (columns df)" "preprocess parse df = Inr out"
  shows "\<exists>t1. encode_diagnosis df = (t1, None) \<and> out = final_table parse t1"
proof -
  obtain t1 e where enc: "encode_diagnosis df = (t1, e)"
    by (cases "encode_diagnosis df")
  show ?thesis
  proof (cases e)
    case None
    with enc assms preprocess_success[of df t1 parse] show ?thesis by simp
  next
    case (Some x)
    with enc assms preprocess_failure[of df t1 x parse] show ?thesis by simp
  qed
qed

lemma preprocess_feature_column:
  assumes "distinct (columns df)" "preprocess parse df = Inr out"
    and "c \<noteq> ''diagnosis''" "getitem out c = Inr s'"
  shows "\<exists>s. getitem df c = Inr s \<and> s' = to_numeric parse (replace_dict sentinels s)"
proof -
  from preprocess_Inr[OF assms(1,2)] obtain t1 where
    enc: "encode_diagnosis df = (t1, None)" and out: "out = final_table parse t1"
    by blast
  from encode_diagnosis_success[OF enc] obtain d' where t1: "t1 = setitem ''diagnosis'' d' df"
    by blast
  from assms(3,4) out obtain s where s: "getitem (without_ids t1) c = Inr s"
    and s': "s' = to_numeric parse (replace_dict sentinels s)"
    by (auto simp: getitem_final_table split: sum.splits)
  from s have "getitem t1 c = Inr s" by (rule getitem_without_ids)
  with t1 assms(3) have "getitem df c = Inr s"
    by (simp add: getitem_setitem_other)
  with s' show ?thesis by blast
qed

lemma vals_coerced:
  "vals (to_numeric parse (replace_dict d s)) = map (\<lambda>c. to_numeric_cell parse (replace_cell d c)) (vals s)"
  by (simp add: to_numeric_def replace_dict_def Let_def)

lemma dtype_coerced: "is_numeric_dtype (dtype (to_numeric parse s))"
  by (cases "dtype s") (simp_all add: to_numeric_def Let_def)

subsection \<open>The label encoding\<close>

lemma astype_int_cells_finite:
  "(\<exists>ds. astype_int_cells cs = Inr ds) \<longleftrightarrow> list_all is_finite cs"
  by (induction cs rule: astype_int_cells.induct) (auto split: sum.splits)

lemma astype_int_finite: "(\<exists>s'. astype_int s = Inr s') \<longleftrightarrow> list_all is_finite (vals s)"
  using astype_int_cells_finite[of "vals s"]
  by (auto simp: astype_int_def split: sum.splits)

lemma map_cell_finite: "is_finite (map_cell mapping c) \<longleftrightarrow> is_mapped c"
  by (cases c) (auto simp: mapping_def)

lemma map_cell_isna: "isna (map_cell mapping c) \<longleftrightarrow> \<not> is_mapped c"
  by (cases c) (auto simp: mapping_def)

lemma map_cell_no_text: "\<not> is_text (map_cell d c)"
  by (cases c) (auto split: option.splits)

text \<open>The second pass: on a mapped column, \<open>replace\<close> finds no text and \<open>fillna\<close> fills nothing.\<close>

lemma second_pass_idle:
  "fillna (map_dict mapping d) (replace_dict alt_map (map_dict mapping d)) = map_dict mapping d"
proof -
  have "\<not> list_ex is_text (vals (map_dict mapping d))"
    by (simp add: map_dict_def Let_def list_ex_iff map_cell_no_text)
  then have "replace_dict alt_map (map_dict mapping d) = map_dict mapping d"
    by (rule replace_dict_no_text)
  moreover have "fillna s s = s" for s
    by (simp add: fillna_def map2_map_map[where f=id and g=id, simplified] zip_same_conv_map o_def map_idI)
  ultimately show ?thesis by simp
qed

lemma encode_diagnosis_valid: "snd (encode_diagnosis df) = None \<longleftrightarrow> valid_labels df"
proof (cases "getitem df ''diagnosis''")
  case (Inl e)
  then show ?thesis by (simp add: encode_diagnosis_def valid_labels_def)
next
  case (Inr d)
  show ?thesis
  proof (cases "is_numeric_dtype (dtype d)")
    case True
    with Inr astype_int_finite[of d] show ?thesis
      by (auto simp: encode_diagnosis_def valid_labels_def split: sum.splits)
  next
    case False
    have vals: "list_all is_finite (vals (map_dict mapping d)) \<longleftrightarrow> list_all is_mapped (vals d)"
      by (simp add: map_dict_def Let_def list_all_iff map_cell_finite)
    from False Inr astype_int_finite[of "map_dict mapping d"] vals show ?thesis
      by (auto simp: encode_diagnosis_def valid_labels_def Let_def second_pass_idle
          split: sum.splits)
  qed
qed

subsection \<open>Sentinels and numeric coercion, cell by cell\<close>

lemma sentinels_cases:
  "sentinels t = (if t \<in> {''?'', ''NA'', ''null'', ''None''} then Some NA else None)"
  by (simp add: sentinels_def)

lemma coerced_sentinel:
  "x \<in> {Str ''?'', Str ''NA'', Str ''null'', Str ''None''} \<Longrightarrow>
     to_numeric_cell parse (replace_cell sentinels x) = NaN"
  by (auto simp: sentinels_def)

lemma coerced_number: "to_numeric_cell parse (replace_cell sentinels (Num n)) = Num n"
  by simp

lemma coerced_parsed:
  "t \<notin> {''?'', ''NA'', ''null'', ''None''} \<Longrightarrow> parse t = Some n \<Longrightarrow>
     to_numeric_cell parse (replace_cell sentinels (Str t)) = Num n"
  by (simp add: sentinels_cases)

lemma coerced_unparsed:
  "parse t = None \<Longrightarrow> to_numeric_cell parse (replace_cell sentinels (Str t)) = NaN"
  by (simp add: sentinels_cases)

lemma coerced_missing: "isna x \<Longrightarrow> to_numeric_cell parse (replace_cell sentinels x) = NaN"
  by (cases x) simp_all

lemma replace_sentinels_nth:
  "k < length t \<Longrightarrow>
     replace_sentinels t ! k = (fst (t ! k), replace_dict sentinels (snd (t ! k)))"
  by (simp add: replace_sentinels_def case_prod_unfold)

lemma replace_cell_other:
  "x \<notin> {Str ''?'', Str ''NA'', Str ''null'', Str ''None''} \<Longrightarrow> replace_cell sentinels x = x"
  by (cases x) (auto simp: sentinels_cases)

subsection \<open>Missing-value sentinels\<close>

text \<open>
  Claim C6.  Let \<open>preprocess\<close> return the table \<open>out\<close> for a table with distinct
  labels, and let \<open>c\<close> be a feature column of the input that \<open>out\<close> still has.  The
  column keeps its length, and every cell of it that held exactly \<open>?\<close>, \<open>NA\<close>,
  \<open>null\<close> or \<open>None\<close> is missing in \<open>out\<close>.  The sentinel step itself, on any table
  \<open>t\<close>, keeps the labels, the number of columns, every dtype and length, and every
  cell that is none of the four sentinels.
\<close>

theorem sentinel_cells_absent:
  assumes "distinct (columns df)" and "preprocess parse df = Inr out"
    and "c \<noteq> ''diagnosis''" and "getitem df c = Inr s" and "getitem out c = Inr s'"
  shows "length (vals s') = length (vals s)
    \<and> (\<forall>i<length (vals s).
          vals s ! i \<in> {Str ''?'', Str ''NA'', Str ''null'', Str ''None''}
            \<longrightarrow> isna (vals s' ! i))
    \<and> columns (replace_sentinels t) = columns t
    \<and> length (replace_sentinels t) = length t
    \<and> (\<forall>k<length t.
          dtype (snd (replace_sentinels t ! k)) = dtype (snd (t ! k))
          \<and> length (vals (snd (replace_sentinels t ! k))) = length (vals (snd (t ! k)))
          \<and> (\<forall>i<length (vals (snd (t ! k))).
                vals (snd (t ! k)) ! i \<notin> {Str ''?'', Str ''NA'', Str ''null'', Str ''None''}
                  \<longrightarrow> vals (snd (replace_sentinels t ! k)) ! i = vals (snd (t ! k)) ! i))"
proof (intro conjI allI impI)
  from preprocess_feature_column[OF assms(1,2,3,5)] assms(4)
  have s': "s' = to_numeric parse (replace_dict sentinels s)"
    by simp
  then show "length (vals s') = length (vals s)"
    by (simp add: vals_coerced)
  fix i assume "i < length (vals s)"
    and "vals s ! i \<in> {Str ''?'', Str ''NA'', Str ''null'', Str ''None''}"
  with s' show "isna (vals s' ! i)"
    by (simp add: vals_coerced coerced_sentinel)
next
  show "columns (replace_sentinels t) = columns t"
    by (rule columns_replace_sentinels)
  show "length (replace_sentinels t) = length t"
    by (simp add: replace_sentinels_def)
next
  fix k assume k: "k < length t"
  then show "dtype (snd (replace_sentinels t ! k)) = dtype (snd (t ! k))"
    by (simp add: replace_sentinels_nth replace_dict_def)
  from k show "length (vals (snd (replace_sentinels t ! k))) = length (vals (snd (t ! k)))"
    by (simp add: replace_sentinels_nth replace_dict_def)
  fix i assume "i < length (vals (snd (t ! k)))"
    and "vals (snd (t ! k)) ! i \<notin> {Str ''?'', Str ''NA'', Str ''null'', Str ''None''}"
  with k show "vals (snd (replace_sentinels t ! k)) ! i = vals (snd (t ! k)) ! i"
    by (simp add: replace_sentinels_nth replace_dict_def replace_cell_other)
qed

text \<open>
  A table with the labels \<open>M\<close> and \<open>b\<close> and a feature column holding \<open>?\<close> and \<open>17\<close>:
  the first cell of the feature is missing in the table returned.
\<close>

theorem sentinel_cells_absent_witness:
  "preprocess parse_unsigned
     [(''diagnosis'', \<lparr>dtype = Object, vals = [Str ''M'', Str ''b'']\<rparr>),
      (''area_mean'', \<lparr>dtype = Object, vals = [Str ''?'', Str ''17'']\<rparr>)]
   = Inr [(''diagnosis'', \<lparr>dtype = Int64, vals = [Num (Fin 1), Num (Fin 0)]\<rparr>),
          (''area_mean'', \<lparr>dtype = Float64, vals = [NaN, Num (Fin 17)]\<rparr>)]
   \<and> isna (vals \<lparr>dtype = Float64, vals = [NaN, Num (Fin 17)]\<rparr> ! 0)"
proof -
  let ?df = "[(''diagnosis'', \<lparr>dtype = Object, vals = [Str ''M'', Str ''b'']\<rparr>),
      (''area_mean'', \<lparr>dtype = Object, vals = [Str ''?'', Str ''17'']\<rparr>)]"
  let ?out = "[(''diagnosis'', \<lparr>dtype = Int64, vals = [Num (Fin 1), Num (Fin 0)]\<rparr>),
          (''area_mean'', \<lparr>dtype = Float64, vals = [NaN, Num (Fin 17)]\<rparr>)]"
  have d: "distinct (columns ?df)"
    by (simp add: columns_def)
  have run: "preprocess parse_unsigned ?df = Inr ?out"
    by (simp add: run_defs table_defs series_defs parse_unsigned_def digit_def)
  have n: "''area_mean'' \<noteq> ''diagnosis''"
    by simp
  have g: "getitem ?df ''area_mean'' = Inr \<lparr>dtype = Object, vals = [Str ''?'', Str ''17'']\<rparr>"
    by (simp add: getitem_def)
  have g': "getitem ?out ''area_mean'' = Inr \<lparr>dtype = Float64, vals = [NaN, Num (Fin 17)]\<rparr>"
    by (simp add: getitem_def)
  from sentinel_cells_absent[OF d run n g g', of "[]"]
  have "isna (vals \<lparr>dtype = Float64, vals = [NaN, Num (Fin 17)]\<rparr> ! 0)"
    by simp
  with run show ?thesis
    by blast
qed

end
